theory Spec2Isabelle
  imports Complex_Main "HOL-Library.DAList"
begin

section \<open>Values shared by the WebSocket service and the location route\<close>

text \<open>
  A JavaScript number, an IEEE double: a finite value (\<open>Num 0\<close> is \<^verbatim>\<open>+0\<close>), \<^verbatim>\<open>-0\<close>,
  the two infinities, or \<^verbatim>\<open>NaN\<close>. Every double is a value of this type; which finite
  values are doubles, and what an operation rounds its result to, is not fixed here: the
  operations are a parameter of the code that computes (see \<open>arith\<close> below).
\<close>

datatype number = Num real | NegZero | PosInfinity | NegInfinity | NaN

text \<open>
  A value produced by \<^verbatim>\<open>JSON.parse\<close>. \<^verbatim>\<open>undefined\<close> (a missing property) is \<open>None\<close> of
  an option.
\<close>

datatype jsval =
    JNull
  | JBool bool
  | JNum number
  | JStr string
  | JArr "jsval list"
  | JObj "(string \<times> jsval) list"

text \<open>JavaScript truthiness, as used by \<^verbatim>\<open>&&\<close> and \<^verbatim>\<open>!\<close>.\<close>

fun truthy :: "jsval \<Rightarrow> bool" where
  "truthy JNull = False"
| "truthy (JBool b) = b"
| "truthy (JNum x) = (x \<noteq> Num 0 \<and> x \<noteq> NegZero \<and> x \<noteq> NaN)"
| "truthy (JStr s) = (s \<noteq> [])"
| "truthy (JArr xs) = True"
| "truthy (JObj kvs) = True"

text \<open>
  Reading the property \<^verbatim>\<open>data.type\<close> or \<^verbatim>\<open>data.deviceId\<close>: an object yields the stored
  value, every other non-null value yields \<^verbatim>\<open>undefined\<close>; on \<^verbatim>\<open>null\<close> the access throws,
  which the handler below treats before reading.
\<close>

fun get_property :: "jsval \<Rightarrow> string \<Rightarrow> jsval option" where
  "get_property (JObj kvs) p = map_of kvs p"
| "get_property v p = None"

text \<open>A WebSocket object is compared by identity (\<^verbatim>\<open>conn === ws\<close>): a handle.\<close>

type_synonym conn = nat

text \<open>
  A key of the JavaScript \<^verbatim>\<open>Map\<close>: primitives are equal by value (\<^verbatim>\<open>-0\<close> is the key
  \<^verbatim>\<open>+0\<close>), arrays and objects by identity, so each parsed array or object is a key of its
  own.
\<close>

datatype mapkey = KBool bool | KNum number | KStr string | KRef nat

text \<open>
  A geofence of the device document. Its radius and the array of its centre are taken as
  present; the centre's array may have any length.
\<close>

record geofence =
  name :: string
  radius :: number
  center :: "number list"

record last_location =
  ll_coordinates :: "number list"
  ll_timestamp :: nat

record device =
  deviceId :: string
  lastLocation :: "last_location option"
  geofences :: "geofence list"

record location_data =
  data_coordinates :: "number list"
  data_altitude :: "number option"
  data_speed :: "number option"
  data_accuracy :: "number option"
  data_timestamp :: nat

text \<open>The objects handed to \<^verbatim>\<open>JSON.stringify\<close> and sent on a connection.\<close>

datatype frame =
    ErrorFrame string
  | Subscribed jsval
  | LocationUpdate string location_data
  | GeofenceEvent string string geofence

record location =
  loc_deviceId :: string
  loc_coordinates :: "number list"
  loc_altitude :: number
  loc_speed :: number
  loc_accuracy :: number
  loc_timestamp :: nat
  loc_metadata :: "(string \<times> string) list"

text \<open>
  The state of the process: the singleton service's \<^verbatim>\<open>connections\<close> map (insertion
  ordered, keys unique), the next identity for a key that is an array or object, the
  transport's \<^verbatim>\<open>readyState\<close> of every socket, the frames sent so far (oldest first), and
  the documents written to the two collections.
\<close>

record state =
  connections :: "(mapkey, conn) alist"
  next_ref :: nat
  readyState :: "conn \<Rightarrow> nat"
  sent :: "(conn \<times> frame) list"
  saved_locations :: "location list"
  saved_devices :: "device list"

text \<open>The outcome of an awaited promise of the persistence layer.\<close>

datatype 'a awaited = Resolves 'a | Rejects


section \<open>websocket.service.js\<close>

definition map_get :: "mapkey \<Rightarrow> (mapkey, conn) alist \<Rightarrow> conn option" where
  "map_get k m = DAList.lookup m k"

definition map_set :: "mapkey \<Rightarrow> conn \<Rightarrow> (mapkey, conn) alist \<Rightarrow> (mapkey, conn) alist" where
  "map_set k c m = DAList.update k c m"

definition map_delete :: "mapkey \<Rightarrow> (mapkey, conn) alist \<Rightarrow> (mapkey, conn) alist" where
  "map_delete k m = DAList.delete k m"

definition map_entries :: "(mapkey, conn) alist \<Rightarrow> (mapkey \<times> conn) list" where
  "map_entries m = DAList.impl_of m"

definition send :: "conn \<Rightarrow> frame \<Rightarrow> state \<Rightarrow> state" where
  "send ws f s = s\<lparr>sent := sent s @ [(ws, f)]\<rparr>"

text \<open>
  \<^verbatim>\<open>this.connections.set(data.deviceId, ws)\<close>: a primitive id is its own key, an array or
  object is a fresh key. \<^verbatim>\<open>null\<close> is never stored (it is falsy).
\<close>

definition store_connection :: "jsval \<Rightarrow> conn \<Rightarrow> state \<Rightarrow> state" where
  "store_connection v ws s =
     (case v of
        JStr d \<Rightarrow> s\<lparr>connections := map_set (KStr d) ws (connections s)\<rparr>
      | JNum x \<Rightarrow>
          s\<lparr>connections :=
              map_set (KNum (if x = NegZero then Num 0 else x)) ws (connections s)\<rparr>
      | JBool b \<Rightarrow> s\<lparr>connections := map_set (KBool b) ws (connections s)\<rparr>
      | _ \<Rightarrow> s\<lparr>connections := map_set (KRef (next_ref s)) ws (connections s),
               next_ref := Suc (next_ref s)\<rparr>)"

text \<open>The guard \<^verbatim>\<open>data.type === 'subscribe' && data.deviceId\<close>, for \<open>data\<close> not \<^verbatim>\<open>null\<close>.\<close>

definition is_subscribe :: "jsval \<Rightarrow> bool" where
  "is_subscribe data =
     (get_property data ''type'' = Some (JStr ''subscribe'') \<and>
      (case get_property data ''deviceId'' of Some v \<Rightarrow> truthy v | None \<Rightarrow> False))"

text \<open>
  The \<^verbatim>\<open>message\<close> handler of a connection \<open>ws\<close>. The frame is given by what
  \<^verbatim>\<open>JSON.parse\<close> makes of it: \<open>None\<close> when it throws. Reading a property of \<^verbatim>\<open>null\<close>
  throws too, and a rejected \<^verbatim>\<open>Device.findOne\<close> (the collaborator \<open>findOne\<close>) as well:
  all three end in the \<^verbatim>\<open>catch\<close> block.
\<close>

definition on_message ::
  "(jsval \<Rightarrow> device option awaited) \<Rightarrow> conn \<Rightarrow> jsval option \<Rightarrow> state \<Rightarrow> state" where
  "on_message findOne ws message s =
     (case message of
        None \<Rightarrow> send ws (ErrorFrame ''Invalid message format'') s
      | Some data \<Rightarrow>
          if data = JNull then send ws (ErrorFrame ''Invalid message format'') s
          else if is_subscribe data then
            (case get_property data ''deviceId'' of
               None \<Rightarrow> s
             | Some did \<Rightarrow>
                 (case findOne did of
                    Rejects \<Rightarrow> send ws (ErrorFrame ''Invalid message format'') s
                  | Resolves None \<Rightarrow> send ws (ErrorFrame ''Device not found'') s
                  | Resolves (Some dev) \<Rightarrow> send ws (Subscribed did) (store_connection did ws s)))
          else s)"

text \<open>
  The \<^verbatim>\<open>close\<close> handler: the loop over \<^verbatim>\<open>this.connections.entries()\<close>, deleting the
  entry it visits when the stored socket is \<open>ws\<close>.
\<close>

fun close_loop :: "conn \<Rightarrow> (mapkey \<times> conn) list \<Rightarrow> (mapkey, conn) alist \<Rightarrow> (mapkey, conn) alist" where
  "close_loop ws [] m = m"
| "close_loop ws ((k, c) # es) m = close_loop ws es (if c = ws then map_delete k m else m)"

definition on_close :: "conn \<Rightarrow> state \<Rightarrow> state" where
  "on_close ws s = s\<lparr>connections := close_loop ws (map_entries (connections s)) (connections s)\<rparr>"

definition broadcastLocation :: "string \<Rightarrow> location_data \<Rightarrow> state \<Rightarrow> state" where
  "broadcastLocation d locationData s =
     (case map_get (KStr d) (connections s) of
        Some connection \<Rightarrow>
          if readyState s connection = 1 then send connection (LocationUpdate d locationData) s
          else s
      | None \<Rightarrow> s)"

definition broadcastGeofenceEvent :: "string \<Rightarrow> string \<Rightarrow> geofence \<Rightarrow> state \<Rightarrow> state" where
  "broadcastGeofenceEvent d eventType g s =
     (case map_get (KStr d) (connections s) of
        Some connection \<Rightarrow>
          if readyState s connection = 1 then send connection (GeofenceEvent d eventType g) s
          else s
      | None \<Rightarrow> s)"

section \<open>The location route: POST /api/locations\<close>

text \<open>
  The arithmetic of the engine: the four operators on doubles, the functions of \<^verbatim>\<open>Math\<close>
  that \<^verbatim>\<open>calculateDistance\<close> calls, and \<^verbatim>\<open>Math.PI\<close>. The code below is written over any
  such arithmetic, the engine's own included.
\<close>

record arith =
  op_add :: "number \<Rightarrow> number \<Rightarrow> number"
  op_sub :: "number \<Rightarrow> number \<Rightarrow> number"
  op_mul :: "number \<Rightarrow> number \<Rightarrow> number"
  op_div :: "number \<Rightarrow> number \<Rightarrow> number"
  Math_sin :: "number \<Rightarrow> number"
  Math_cos :: "number \<Rightarrow> number"
  Math_sqrt :: "number \<Rightarrow> number"
  Math_atan2 :: "number \<Rightarrow> number \<Rightarrow> number"
  Math_PI :: number

text \<open>
  The destructuring \<^verbatim>\<open>[lon, lat] = point\<close> reads the first two elements; a missing one is
  \<^verbatim>\<open>undefined\<close>, which an operator takes as \<^verbatim>\<open>NaN\<close>.
\<close>

definition item :: "number list \<Rightarrow> nat \<Rightarrow> number" where
  "item point i = (if i < length point then point ! i else NaN)"

text \<open>\<^verbatim>\<open>calculateDistance(point1, point2)\<close>, operation by operation.\<close>

definition calculateDistance :: "arith \<Rightarrow> number list \<Rightarrow> number list \<Rightarrow> number" where
  "calculateDistance ar point1 point2 =
     (let lon1 = item point1 0; lat1 = item point1 1;
          lon2 = item point2 0; lat2 = item point2 1;
          R = Num 6371000;
          phi1 = op_div ar (op_mul ar lat1 (Math_PI ar)) (Num 180);
          phi2 = op_div ar (op_mul ar lat2 (Math_PI ar)) (Num 180);
          dphi = op_div ar (op_mul ar (op_sub ar lat2 lat1) (Math_PI ar)) (Num 180);
          dlam = op_div ar (op_mul ar (op_sub ar lon2 lon1) (Math_PI ar)) (Num 180);
          a = op_add ar
                (op_mul ar (Math_sin ar (op_div ar dphi (Num 2)))
                           (Math_sin ar (op_div ar dphi (Num 2))))
                (op_mul ar
                   (op_mul ar (op_mul ar (Math_cos ar phi1) (Math_cos ar phi2))
                              (Math_sin ar (op_div ar dlam (Num 2))))
                   (Math_sin ar (op_div ar dlam (Num 2))));
          c = op_mul ar (Num 2)
                (Math_atan2 ar (Math_sqrt ar a) (Math_sqrt ar (op_sub ar (Num 1) a)))
      in op_mul ar R c)"

text \<open>
  The operator \<^verbatim>\<open><=\<close> on doubles, which does not round: false when either side is
  \<^verbatim>\<open>NaN\<close>, the order of the extended reals otherwise.
\<close>

fun finite_value :: "number \<Rightarrow> real" where
  "finite_value (Num r) = r"
| "finite_value x = 0"

fun js_le :: "number \<Rightarrow> number \<Rightarrow> bool" where
  "js_le NaN y = False"
| "js_le x NaN = False"
| "js_le NegInfinity y = True"
| "js_le x PosInfinity = True"
| "js_le PosInfinity y = False"
| "js_le x NegInfinity = False"
| "js_le x y = (finite_value x \<le> finite_value y)"

text \<open>
  The \<^verbatim>\<open>coordinates\<close> property of the request body, by what the route's guard tells
  apart: missing or falsy, a truthy value that is not an array, or an array. The array's
  items are numbers, as the route's Swagger schema declares them.
\<close>

datatype coords_field = NoCoordinates | NotArray | Coordinates "number list"

record body =
  coordinates :: coords_field
  altitude :: "number option"
  speed :: "number option"
  accuracy :: "number option"
  metadata :: "(string \<times> string) list option"

text \<open>
  The collaborators of one request: the two \<^verbatim>\<open>save()\<close> promises of the persistence
  layer, and the clock read by \<^verbatim>\<open>Date.now\<close> (the location's default timestamp) and by
  \<^verbatim>\<open>new Date()\<close>.
\<close>

record env =
  location_save :: "location \<Rightarrow> unit awaited"
  device_save :: "device \<Rightarrow> unit awaited"
  date_now :: nat
  new_date :: nat

text \<open>What \<^verbatim>\<open>next(error)\<close> receives.\<close>

datatype error = ApiError nat string | SaveRejected

text \<open>The loop \<^verbatim>\<open>for (const geofence of req.device.geofences)\<close>.\<close>

fun check_geofences ::
  "arith \<Rightarrow> device \<Rightarrow> number list \<Rightarrow> geofence list \<Rightarrow> state \<Rightarrow> state" where
  "check_geofences ar dev coords [] s = s"
| "check_geofences ar dev coords (g # gs) s =
     (let distance = calculateDistance ar coords (center g);
          wasInside = (case lastLocation dev of
                         Some l \<Rightarrow>
                           js_le (calculateDistance ar (ll_coordinates l) (center g)) (radius g)
                       | None \<Rightarrow> False);
          isInside = js_le distance (radius g)
      in check_geofences ar dev coords gs
           (if \<not> wasInside \<and> isInside then broadcastGeofenceEvent (deviceId dev) ''enter'' g s
            else if wasInside \<and> \<not> isInside then broadcastGeofenceEvent (deviceId dev) ''exit'' g s
            else s))"

text \<open>
  The handler of \<^verbatim>\<open>router.post('/')\<close> for the authenticated device \<open>dev\<close>
  (\<^verbatim>\<open>req.device\<close>), over the arithmetic \<open>ar\<close>. The result is the \<^verbatim>\<open>201\<close> response's location, or the error handed
  to \<^verbatim>\<open>next\<close>; the state holds every write and every frame sent on the way.
\<close>

definition new_Location :: "env \<Rightarrow> device \<Rightarrow> body \<Rightarrow> number list \<Rightarrow> location" where
  "new_Location e dev b coords =
     \<lparr>loc_deviceId = deviceId dev,
      loc_coordinates = coords,
      loc_altitude = (case altitude b of Some x \<Rightarrow> x | None \<Rightarrow> Num 0),
      loc_speed = (case speed b of Some x \<Rightarrow> x | None \<Rightarrow> Num 0),
      loc_accuracy = (case accuracy b of Some x \<Rightarrow> x | None \<Rightarrow> Num 0),
      loc_timestamp = date_now e,
      loc_metadata = (case metadata b of Some m \<Rightarrow> m | None \<Rightarrow> [])\<rparr>"

definition update_data :: "body \<Rightarrow> number list \<Rightarrow> location \<Rightarrow> location_data" where
  "update_data b coords loc =
     \<lparr>data_coordinates = coords,
      data_altitude = altitude b,
      data_speed = speed b,
      data_accuracy = accuracy b,
      data_timestamp = loc_timestamp loc\<rparr>"

definition post_location ::
  "arith \<Rightarrow> env \<Rightarrow> device \<Rightarrow> body \<Rightarrow> state \<Rightarrow> (error + location) \<times> state" where
  "post_location ar e dev b s =
     (case coordinates b of
        NoCoordinates \<Rightarrow> (Inl (ApiError 400 ''Valid coordinates are required''), s)
      | NotArray \<Rightarrow> (Inl (ApiError 400 ''Valid coordinates are required''), s)
      | Coordinates coords \<Rightarrow>
          (if length coords \<noteq> 2 then (Inl (ApiError 400 ''Valid coordinates are required''), s)
           else
             (let loc = new_Location e dev b coords
              in (case location_save e loc of
                    Rejects \<Rightarrow> (Inl SaveRejected, s)
                  | Resolves u \<Rightarrow>
                      (let s1 = s\<lparr>saved_locations := saved_locations s @ [loc]\<rparr>;
                           dev1 = dev\<lparr>lastLocation :=
                                       Some \<lparr>ll_coordinates = coords, ll_timestamp = new_date e\<rparr>\<rparr>
                       in (case device_save e dev1 of
                             Rejects \<Rightarrow> (Inl SaveRejected, s1)
                           | Resolves u \<Rightarrow>
                               (let s2 = s1\<lparr>saved_devices := saved_devices s1 @ [dev1]\<rparr>;
                                    s3 = broadcastLocation (deviceId dev1) (update_data b coords loc) s2;
                                    s4 = (if geofences dev1 \<noteq> []
                                          then check_geofences ar dev1 coords (geofences dev1) s3
                                          else s3)
                                in (Inr loc, s4))))))))"

section \<open>Concrete inputs\<close>

text \<open>The client frame \<^verbatim>\<open>{ "type": "subscribe", "deviceId": d }\<close> after parsing.\<close>

definition subscribe_frame :: "string \<Rightarrow> jsval" where
  "subscribe_frame d = JObj [(''type'', JStr ''subscribe''), (''deviceId'', JStr d)]"

definition ping_frame :: jsval where
  "ping_frame = JObj [(''type'', JStr ''ping'')]"

text \<open>
  An arithmetic without rounding, for the concrete inputs. On finite numbers each operation
  gives the exact real result; where that is no real number (an infinite or \<^verbatim>\<open>NaN\<close>
  operand, a division by zero, the root of a negative number) it gives \<^verbatim>\<open>NaN\<close>. It is
  one arithmetic among those the code is written over, not the engine's.
\<close>

fun real_of :: "number \<Rightarrow> real option" where
  "real_of (Num r) = Some r"
| "real_of NegZero = Some 0"
| "real_of x = None"

definition exact1 :: "(real \<Rightarrow> real) \<Rightarrow> number \<Rightarrow> number" where
  "exact1 f x = (case real_of x of Some a \<Rightarrow> Num (f a) | None \<Rightarrow> NaN)"

definition exact2 :: "(real \<Rightarrow> real \<Rightarrow> real) \<Rightarrow> number \<Rightarrow> number \<Rightarrow> number" where
  "exact2 f x y =
     (case real_of x of
        Some a \<Rightarrow> (case real_of y of Some b \<Rightarrow> Num (f a b) | None \<Rightarrow> NaN)
      | None \<Rightarrow> NaN)"

definition exact_div :: "number \<Rightarrow> number \<Rightarrow> number" where
  "exact_div x y =
     (case real_of x of
        Some a \<Rightarrow>
          (case real_of y of Some b \<Rightarrow> if b = 0 then NaN else Num (a / b) | None \<Rightarrow> NaN)
      | None \<Rightarrow> NaN)"

definition exact_sqrt :: "number \<Rightarrow> number" where
  "exact_sqrt x =
     (case real_of x of Some a \<Rightarrow> if a < 0 then NaN else Num (sqrt a) | None \<Rightarrow> NaN)"

definition atan2 :: "real \<Rightarrow> real \<Rightarrow> real" where
  "atan2 y x =
     (if 0 < x then arctan (y / x)
      else if x < 0 then (if 0 \<le> y then arctan (y / x) + pi else arctan (y / x) - pi)
      else if 0 < y then pi / 2
      else if y < 0 then - (pi / 2)
      else 0)"

definition unrounded :: arith where
  "unrounded =
     \<lparr>op_add = exact2 (+), op_sub = exact2 (-), op_mul = exact2 (*), op_div = exact_div,
      Math_sin = exact1 sin, Math_cos = exact1 cos, Math_sqrt = exact_sqrt,
      Math_atan2 = exact2 atan2, Math_PI = Num pi\<rparr>"

definition home :: geofence where
  "home = \<lparr>name = ''home'', radius = Num 100, center = [Num 0, Num 0]\<rparr>"

definition far :: geofence where
  "far = \<lparr>name = ''far'', radius = Num 100, center = [Num 180, Num 0]\<rparr>"

text \<open>A device whose stored position is the centre of its one geofence.\<close>

definition tracker :: device where
  "tracker = \<lparr>deviceId = ''tracker-1'',
              lastLocation = Some \<lparr>ll_coordinates = [Num 0, Num 0], ll_timestamp = 0\<rparr>,
              geofences = [home]\<rparr>"

text \<open>The tracker with a second geofence, around the point at longitude 180.\<close>

definition roamer :: device where
  "roamer = \<lparr>deviceId = ''tracker-1'',
             lastLocation = Some \<lparr>ll_coordinates = [Num 0, Num 0], ll_timestamp = 0\<rparr>,
             geofences = [home, far]\<rparr>"

text \<open>The same device before its first fix.\<close>

definition new_tracker :: device where
  "new_tracker = \<lparr>deviceId = ''tracker-1'', lastLocation = None, geofences = [home]\<rparr>"

definition known_devices :: "jsval \<Rightarrow> device option awaited" where
  "known_devices v = (if v = JStr ''tracker-1'' then Resolves (Some tracker) else Resolves None)"

definition all_open :: "conn \<Rightarrow> nat" where
  "all_open c = 1"

definition idle :: state where
  "idle = \<lparr>connections = DAList.empty, next_ref = 0, readyState = all_open, sent = [],
           saved_locations = [], saved_devices = []\<rparr>"

text \<open>Connection 7 watches the tracker, connection 8 another device.\<close>

definition watched :: state where
  "watched = idle\<lparr>connections :=
                     map_set (KStr ''other'') 8 (map_set (KStr ''tracker-1'') 7 DAList.empty)\<rparr>"

definition resolve :: "'a \<Rightarrow> unit awaited" where
  "resolve x = Resolves ()"

definition reject :: "'a \<Rightarrow> unit awaited" where
  "reject x = Rejects"

definition reliable :: env where
  "reliable = \<lparr>location_save = resolve, device_save = resolve, date_now = 10, new_date = 11\<rparr>"

definition device_write_fails :: env where
  "device_write_fails =
     \<lparr>location_save = resolve, device_save = reject, date_now = 10, new_date = 11\<rparr>"

definition fix_at :: "number \<Rightarrow> number \<Rightarrow> body" where
  "fix_at lon lat = \<lparr>coordinates = Coordinates [lon, lat], altitude = None, speed = None,
                     accuracy = None, metadata = None\<rparr>"

definition no_fix :: body where
  "no_fix = \<lparr>coordinates = NoCoordinates, altitude = None, speed = None,
             accuracy = None, metadata = None\<rparr>"

section \<open>The connection map\<close>

lemma send_fields:
  "connections (send ws f s) = connections s"
  "readyState (send ws f s) = readyState s"
  "sent (send ws f s) = sent s @ [(ws, f)]"
  "saved_locations (send ws f s) = saved_locations s"
  "saved_devices (send ws f s) = saved_devices s"
  by (simp_all add: send_def)

text \<open>The loop keeps exactly the entries it did not visit with the closing socket.\<close>

lemma impl_of_close_loop:
  "DAList.impl_of (close_loop ws es m) =
     filter (\<lambda>(k, c). (k, ws) \<notin> set es) (DAList.impl_of m)"
proof (induction es arbitrary: m)
  case Nil
  then show ?case by simp
next
  case (Cons e es)
  obtain k c where e: "e = (k, c)" by (cases e)
  show ?case
    by (auto simp: e Cons.IH map_delete_def DAList.delete.rep_eq AList.delete_eq
        intro!: filter_cong)
qed

lemma entries_on_close:
  "map_entries (connections (on_close ws s)) =
     filter (\<lambda>(k, c). c \<noteq> ws) (map_entries (connections s))"
proof -
  have d: "distinct (map fst (DAList.impl_of (connections s)))" by simp
  have "\<And>k c. (k, c) \<in> set (DAList.impl_of (connections s)) \<Longrightarrow>
        ((k, ws) \<in> set (DAList.impl_of (connections s))) = (c = ws)"
    using d by (metis eq_key_imp_eq_value)
  then show ?thesis
    by (auto simp: on_close_def map_entries_def impl_of_close_loop intro!: filter_cong)
qed

lemma map_of_filter_value:
  "distinct (map fst xs) \<Longrightarrow>
   map_of (filter (\<lambda>(k, c). c \<noteq> ws) xs) k =
     (if map_of xs k = Some ws then None else map_of xs k)"
proof (induction xs)
  case Nil
  then show ?case by simp
next
  case (Cons e xs)
  obtain k' c where e: "e = (k', c)" by (cases e)
  from Cons.prems have nk: "k' \<notin> fst ` set xs" and dx: "distinct (map fst xs)"
    by (auto simp: e)
  have none: "map_of xs k' = None" using nk by (simp add: map_of_eq_None_iff)
  show ?case using Cons.IH [OF dx] none by (auto simp: e)
qed

lemma map_get_on_close:
  "map_get k (connections (on_close ws s)) =
     (if map_get k (connections s) = Some ws then None else map_get k (connections s))"
  using entries_on_close [of ws s] map_of_filter_value [of "map_entries (connections s)" ws k]
  by (simp add: map_get_def map_entries_def DAList.lookup.rep_eq)

lemma on_close_idem: "on_close ws (on_close ws s) = on_close ws s"
proof -
  have "map_entries (connections (on_close ws (on_close ws s))) =
        map_entries (connections (on_close ws s))"
    by (simp add: entries_on_close split_def)
  then have "connections (on_close ws (on_close ws s)) = connections (on_close ws s)"
    by (simp add: map_entries_def DAList.impl_of_inject)
  then show ?thesis
    by (simp add: on_close_def)
qed

lemma on_close_sent: "sent (on_close ws s) = sent s"
  by (simp add: on_close_def)

lemma watched_tracker: "map_get (KStr ''tracker-1'') (connections watched) = Some 7"
  by (simp add: watched_def map_get_def map_set_def DAList.lookup_update)

lemma watched_other: "map_get (KStr ''other'') (connections watched) = Some 8"
  by (simp add: watched_def map_get_def map_set_def DAList.lookup_update)

lemma broadcastGeofenceEvent_open:
  assumes "map_get (KStr d) (connections s) = Some c" and "readyState s c = 1"
  shows "broadcastGeofenceEvent d ev g s = send c (GeofenceEvent d ev g) s"
  using assms by (simp add: broadcastGeofenceEvent_def)

lemma broadcastLocation_open:
  assumes "map_get (KStr d) (connections s) = Some c" and "readyState s c = 1"
  shows "broadcastLocation d locationData s = send c (LocationUpdate d locationData) s"
  using assms by (simp add: broadcastLocation_def)


section \<open>The route, step by step\<close>

lemma post_location_accepted:
  assumes "coordinates b = Coordinates [x, y]"
    and "location_save e (new_Location e dev b [x, y]) = Resolves u"
    and "device_save e (dev\<lparr>lastLocation :=
            Some \<lparr>ll_coordinates = [x, y], ll_timestamp = new_date e\<rparr>\<rparr>) = Resolves v"
  shows "post_location ar e dev b s =
           (Inr (new_Location e dev b [x, y]),
            check_geofences ar
              (dev\<lparr>lastLocation := Some \<lparr>ll_coordinates = [x, y], ll_timestamp = new_date e\<rparr>\<rparr>)
              [x, y] (geofences dev)
              (broadcastLocation (deviceId dev)
                 (update_data b [x, y] (new_Location e dev b [x, y]))
                 (s\<lparr>saved_locations := saved_locations s @ [new_Location e dev b [x, y]],
                    saved_devices := saved_devices s @
                      [dev\<lparr>lastLocation :=
                          Some \<lparr>ll_coordinates = [x, y], ll_timestamp = new_date e\<rparr>\<rparr>]\<rparr>)))"
  using assms by (simp add: post_location_def Let_def)

lemma post_location_Inr:
  assumes "fst (post_location ar e dev b s) = Inr loc"
  obtains x y u v where "coordinates b = Coordinates [x, y]"
    and "location_save e (new_Location e dev b [x, y]) = Resolves u"
    and "device_save e (dev\<lparr>lastLocation :=
            Some \<lparr>ll_coordinates = [x, y], ll_timestamp = new_date e\<rparr>\<rparr>) = Resolves v"
    and "loc = new_Location e dev b [x, y]"
proof (cases "coordinates b")
  case NoCoordinates
  with assms show ?thesis by (simp add: post_location_def)
next
  case NotArray
  with assms show ?thesis by (simp add: post_location_def)
next
  case (Coordinates coords)
  with assms have len: "length coords = 2"
    by (auto simp: post_location_def split: if_splits)
  then obtain x y where xy: "coords = [x, y]"
    by (cases coords; cases "tl coords"; auto)
  from assms show ?thesis
    using that [of x y]
    by (auto simp: post_location_def Coordinates xy Let_def split: awaited.splits)
qed

text \<open>The response does not depend on who is subscribed.\<close>

lemma post_location_result_any_state:
  "fst (post_location ar e dev b s) = fst (post_location ar e dev b s')"
  by (simp add: post_location_def Let_def split: coords_field.splits awaited.splits)

lemma check_geofences_no_subscriber:
  "map_get (KStr (deviceId dev)) (connections s) = None \<Longrightarrow>
   check_geofences ar dev coords gs s = s"
  by (induction gs) (simp_all add: Let_def broadcastGeofenceEvent_def)

lemma post_location_no_subscriber:
  assumes "map_get (KStr (deviceId dev)) (connections s) = None"
  shows "sent (snd (post_location ar e dev b s)) = sent s"
proof (cases "coordinates b")
  case NoCoordinates
  then show ?thesis by (simp add: post_location_def)
next
  case NotArray
  then show ?thesis by (simp add: post_location_def)
next
  case (Coordinates coords)
  show ?thesis
    using assms
    by (simp add: post_location_def Coordinates Let_def broadcastLocation_def
        check_geofences_no_subscriber split: awaited.splits)
qed

text \<open>
  The loop reads \<^verbatim>\<open>req.device.lastLocation\<close>; when that is the position it is given, no
  geofence changes state and nothing is sent.
\<close>

lemma check_geofences_same_position:
  "lastLocation dev = Some l \<Longrightarrow> ll_coordinates l = coords \<Longrightarrow>
   check_geofences ar dev coords gs s = s"
  by (induction gs) (simp_all add: Let_def)

text \<open>
  The route hands the loop the device whose \<^verbatim>\<open>lastLocation\<close> it has just set to the new
  fix, so for every request it sends at most the location update.
\<close>

lemma post_location_reports_no_transition:
  "sent (snd (post_location ar e dev b s)) = sent s \<or>
   (\<exists>c data. sent (snd (post_location ar e dev b s)) =
              sent s @ [(c, LocationUpdate (deviceId dev) data)])"
proof (cases "coordinates b")
  case NoCoordinates
  then show ?thesis by (simp add: post_location_def)
next
  case NotArray
  then show ?thesis by (simp add: post_location_def)
next
  case (Coordinates coords)
  have same: "check_geofences ar
                (dev\<lparr>lastLocation := Some \<lparr>ll_coordinates = coords, ll_timestamp = t\<rparr>\<rparr>)
                coords gs s' = s'" for t gs s'
    by (rule check_geofences_same_position
          [where l = "\<lparr>ll_coordinates = coords, ll_timestamp = t\<rparr>"]) simp_all
  show ?thesis
    by (simp add: post_location_def Coordinates Let_def same broadcastLocation_def send_fields
        split: awaited.splits option.splits)
qed

text \<open>The route never reads the position stored before the request.\<close>

lemma post_location_ignores_stored_position:
  "post_location ar e (dev\<lparr>lastLocation := l\<rparr>) b s = post_location ar e dev b s"
  by (simp add: post_location_def new_Location_def Let_def
      split: coords_field.splits awaited.splits)


section \<open>The route at the concrete inputs\<close>

lemma distance_at_center:
  "calculateDistance unrounded [Num x, Num y] [Num x, Num y] = Num 0"
  by (simp add: calculateDistance_def item_def unrounded_def exact1_def exact2_def
      exact_div_def exact_sqrt_def atan2_def Let_def)

lemma distance_antipode_from:
  "calculateDistance unrounded [Num 180, Num 0] [Num 0, Num 0] = Num (6371000 * pi)"
  by (simp add: calculateDistance_def item_def unrounded_def exact1_def exact2_def
      exact_div_def exact_sqrt_def atan2_def Let_def)

lemma distance_antipode_to:
  "calculateDistance unrounded [Num 0, Num 0] [Num 180, Num 0] = Num (6371000 * pi)"
  by (simp add: calculateDistance_def item_def unrounded_def exact1_def exact2_def
      exact_div_def exact_sqrt_def atan2_def Let_def)

lemma antipode_far: "\<not> js_le (Num (6371000 * pi)) (Num 100)"
proof -
  have "(100::real) < 6371000 * 2" by simp
  also have "\<dots> \<le> 6371000 * pi" using pi_ge_two by simp
  finally show ?thesis by simp
qed

lemma center_inside:
  "js_le (calculateDistance unrounded [Num 0, Num 0] (center home)) (radius home)"
  by (simp add: home_def distance_at_center)

lemma antipode_outside:
  "\<not> js_le (calculateDistance unrounded [Num 180, Num 0] (center home)) (radius home)"
  using antipode_far by (simp add: home_def distance_antipode_from)

lemma post_location_reliable:
  "post_location ar reliable dev (fix_at x y) s =
     (Inr (new_Location reliable dev (fix_at x y) [x, y]),
      check_geofences ar
        (dev\<lparr>lastLocation := Some \<lparr>ll_coordinates = [x, y], ll_timestamp = 11\<rparr>\<rparr>)
        [x, y] (geofences dev)
        (broadcastLocation (deviceId dev)
           (update_data (fix_at x y) [x, y] (new_Location reliable dev (fix_at x y) [x, y]))
           (s\<lparr>saved_locations := saved_locations s @ [new_Location reliable dev (fix_at x y) [x, y]],
              saved_devices := saved_devices s @
                [dev\<lparr>lastLocation := Some \<lparr>ll_coordinates = [x, y], ll_timestamp = 11\<rparr>\<rparr>]\<rparr>)))"
  using post_location_accepted [of "fix_at x y" x y reliable dev "()" "()" ar s]
  by (simp add: fix_at_def reliable_def resolve_def)

lemma sent_post_location_watched:
  "deviceId dev = ''tracker-1'' \<Longrightarrow>
   sent (snd (post_location ar reliable dev (fix_at x y) watched)) =
     [(7, LocationUpdate ''tracker-1''
            \<lparr>data_coordinates = [x, y], data_altitude = None, data_speed = None,
             data_accuracy = None, data_timestamp = 10\<rparr>)]"
  using watched_tracker
  by (simp add: post_location_reliable check_geofences_same_position broadcastLocation_def)
    (simp add: send_fields update_data_def new_Location_def fix_at_def reliable_def
      watched_def idle_def all_open_def)

lemma saved_post_location_watched:
  "deviceId dev = ''tracker-1'' \<Longrightarrow>
   saved_locations (snd (post_location ar reliable dev (fix_at x y) watched)) =
     [new_Location reliable dev (fix_at x y) [x, y]]"
  using watched_tracker
  by (simp add: post_location_reliable check_geofences_same_position broadcastLocation_def)
    (simp add: send_fields watched_def idle_def all_open_def)

section \<open>Geofence transitions\<close>

text \<open>
  C1 says that an Exit is reported when the previous stored position was inside a geofence
  and the new fix is outside, an Enter in the opposite case, nothing otherwise. The route
  overwrites \<^verbatim>\<open>req.device.lastLocation\<close> with the new fix before its loop reads it, so
  "was inside" and "is inside" are computed from the same position. Here the tracker's stored
  position is the centre of its geofence (inside), the new fix is at longitude 180 (outside),
  the subscriber's connection is open, and whatever the arithmetic \<open>ar\<close> the only frame sent
  is the location update: no exit event.
\<close>

theorem exit_transition_not_reported:
  "lastLocation tracker = Some \<lparr>ll_coordinates = [Num 0, Num 0], ll_timestamp = 0\<rparr> \<and>
   js_le (calculateDistance unrounded [Num 0, Num 0] (center home)) (radius home) \<and>
   \<not> js_le (calculateDistance unrounded [Num 180, Num 0] (center home)) (radius home) \<and>
   sent (snd (post_location ar reliable tracker (fix_at (Num 180) (Num 0)) watched)) =
     [(7, LocationUpdate ''tracker-1''
            \<lparr>data_coordinates = [Num 180, Num 0], data_altitude = None, data_speed = None,
             data_accuracy = None, data_timestamp = 10\<rparr>)]"
  using center_inside antipode_outside
    sent_post_location_watched [of tracker ar "Num 180" "Num 0"]
  by (simp add: tracker_def)

text \<open>
  C2 says that a device without a previous stored position was inside no geofence, so its
  first fix, lying inside a geofence, is reported as exactly one Enter. Here the device has no
  stored position, its first fix is the centre of its geofence, the subscriber's connection
  is open, and whatever the arithmetic \<open>ar\<close> the only frame sent is the location update: no
  enter event.
\<close>

theorem first_fix_enter_not_reported:
  "lastLocation new_tracker = None \<and>
   js_le (calculateDistance unrounded [Num 0, Num 0] (center home)) (radius home) \<and>
   sent (snd (post_location ar reliable new_tracker (fix_at (Num 0) (Num 0)) watched)) =
     [(7, LocationUpdate ''tracker-1''
            \<lparr>data_coordinates = [Num 0, Num 0], data_altitude = None, data_speed = None,
             data_accuracy = None, data_timestamp = 10\<rparr>)]"
  using center_inside sent_post_location_watched [of new_tracker ar "Num 0" "Num 0"]
  by (simp add: new_tracker_def)


section \<open>Order of the frames of one fix\<close>

lemma roamer_loop_on_stored_device:
  "sent (check_geofences unrounded roamer [Num 180, Num 0] (geofences roamer)
           (broadcastLocation (deviceId roamer) d watched)) =
     [(7, LocationUpdate ''tracker-1'' d),
      (7, GeofenceEvent ''tracker-1'' ''exit'' home),
      (7, GeofenceEvent ''tracker-1'' ''enter'' far)]"
proof -
  have sub: "map_get (KStr ''tracker-1'') (connections watched) = Some 7"
    by (rule watched_tracker)
  have opn: "readyState watched 7 = 1" "sent watched = []"
    by (simp_all add: watched_def idle_def all_open_def)
  show ?thesis
    using sub opn antipode_far
    by (simp add: roamer_def home_def far_def Let_def distance_at_center distance_antipode_from
        distance_antipode_to broadcastLocation_def broadcastGeofenceEvent_def send_fields)
qed

text \<open>
  C5 says that for an accepted fix the subscriber is sent the location update first and then
  each geofence transition, in the order of the device's geofence list. Here the device has
  the geofences home and far, in this order; its stored position is inside home and outside
  far, the fix is outside home and inside far, and the subscriber's connection is open. The
  route's own broadcast and loop, run on the device as it was stored, send the update, then
  the exit of home, then the enter of far. The route, which hands the loop the device with
  the stored position already overwritten, sends the update and neither transition, whatever
  the arithmetic \<open>ar\<close>.
\<close>

theorem transitions_missing_after_update:
  "sent (check_geofences unrounded roamer [Num 180, Num 0] (geofences roamer)
           (broadcastLocation (deviceId roamer)
              \<lparr>data_coordinates = [Num 180, Num 0], data_altitude = None, data_speed = None,
               data_accuracy = None, data_timestamp = 10\<rparr> watched)) =
     [(7, LocationUpdate ''tracker-1''
            \<lparr>data_coordinates = [Num 180, Num 0], data_altitude = None, data_speed = None,
             data_accuracy = None, data_timestamp = 10\<rparr>),
      (7, GeofenceEvent ''tracker-1'' ''exit'' home),
      (7, GeofenceEvent ''tracker-1'' ''enter'' far)] \<and>
   sent (snd (post_location ar reliable roamer (fix_at (Num 180) (Num 0)) watched)) =
     [(7, LocationUpdate ''tracker-1''
            \<lparr>data_coordinates = [Num 180, Num 0], data_altitude = None, data_speed = None,
             data_accuracy = None, data_timestamp = 10\<rparr>)]"
  using roamer_loop_on_stored_device sent_post_location_watched [of roamer ar "Num 180" "Num 0"]
  by (simp add: roamer_def)


section \<open>Validation of the coordinates\<close>

text \<open>
  C3, as stated, fails: a fix at longitude 200 and latitude 100 is outside both ranges, and
  with a persistence layer that takes the write it is answered with \<^verbatim>\<open>201\<close>, saved and
  broadcast.
\<close>

theorem out_of_range_fix_accepted:
  "fst (post_location unrounded reliable tracker (fix_at (Num 200) (Num 100)) watched) =
     Inr (new_Location reliable tracker (fix_at (Num 200) (Num 100)) [Num 200, Num 100]) \<and>
   saved_locations (snd (post_location unrounded reliable tracker (fix_at (Num 200) (Num 100)) watched)) =
     [new_Location reliable tracker (fix_at (Num 200) (Num 100)) [Num 200, Num 100]] \<and>
   sent (snd (post_location unrounded reliable tracker (fix_at (Num 200) (Num 100)) watched)) =
     [(7, LocationUpdate ''tracker-1''
            \<lparr>data_coordinates = [Num 200, Num 100], data_altitude = None, data_speed = None,
             data_accuracy = None, data_timestamp = 10\<rparr>)]"
  using sent_post_location_watched [of tracker unrounded "Num 200" "Num 100"]
    saved_post_location_watched [of tracker unrounded "Num 200" "Num 100"]
  by (simp add: post_location_reliable) (simp add: tracker_def)

text \<open>
  C3, amended. The route answers with the error \<^verbatim>\<open>400 Valid coordinates are required\<close>
  exactly when the \<^verbatim>\<open>coordinates\<close> of the body are not an array of two items, whatever the
  two numbers are; and then nothing is written, evaluated or sent: the state is unchanged.
\<close>

theorem post_location_shape_check:
  "(fst (post_location ar e dev b s) = Inl (ApiError 400 ''Valid coordinates are required'')) =
     (\<forall>x y. coordinates b \<noteq> Coordinates [x, y]) \<and>
   ((\<forall>x y. coordinates b \<noteq> Coordinates [x, y]) \<longrightarrow> snd (post_location ar e dev b s) = s)"
proof (cases "coordinates b")
  case NoCoordinates
  then show ?thesis by (simp add: post_location_def)
next
  case NotArray
  then show ?thesis by (simp add: post_location_def)
next
  case (Coordinates coords)
  show ?thesis
  proof (cases "length coords = 2")
    case True
    then obtain x y where xy: "coords = [x, y]"
      by (cases coords; cases "tl coords"; auto)
    show ?thesis
      by (simp add: post_location_def Coordinates xy Let_def split: awaited.splits)
  next
    case False
    then have "\<forall>x y. coords \<noteq> [x, y]" by auto
    then show ?thesis using False by (simp add: post_location_def Coordinates)
  qed
qed

theorem post_location_shape_check_witness:
  "(\<forall>x y. coordinates no_fix \<noteq> Coordinates [x, y]) \<and>
   fst (post_location unrounded reliable tracker no_fix watched) =
     Inl (ApiError 400 ''Valid coordinates are required'') \<and>
   snd (post_location unrounded reliable tracker no_fix watched) = watched"
proof -
  have h: "\<forall>x y. coordinates no_fix \<noteq> Coordinates [x, y]" by (simp add: no_fix_def)
  show ?thesis
    using post_location_shape_check [of unrounded reliable tracker no_fix watched] h by simp
qed


section \<open>Frames that are not a subscription\<close>

text \<open>
  C4, as stated, fails: the frame \<^verbatim>\<open>{"type": "ping"}\<close> parses and violates the schema, and
  the server sends nothing in return.
\<close>

theorem schema_violation_gets_no_error_frame:
  "sent (on_message known_devices 7 (Some ping_frame) idle) = []"
  by (simp add: on_message_def ping_frame_def is_subscribe_def idle_def)

text \<open>
  C4, amended. A frame that cannot be parsed, or parses to \<^verbatim>\<open>null\<close>, is answered on its
  connection with the error frame \<^verbatim>\<open>Invalid message format\<close>; a frame that parses to
  anything else and fails the subscription guard is ignored without a reply. In both cases
  the registry and the connection's state are unchanged.
\<close>

theorem non_subscribe_frame_handling:
  assumes "data \<noteq> JNull" and "\<not> is_subscribe data"
  shows "on_message findOne ws None s = send ws (ErrorFrame ''Invalid message format'') s \<and>
         on_message findOne ws (Some JNull) s = send ws (ErrorFrame ''Invalid message format'') s \<and>
         on_message findOne ws (Some data) s = s \<and>
         connections (send ws (ErrorFrame ''Invalid message format'') s) = connections s \<and>
         readyState (send ws (ErrorFrame ''Invalid message format'') s) = readyState s"
  using assms by (simp add: on_message_def send_fields)

theorem non_subscribe_frame_handling_witness:
  "ping_frame \<noteq> JNull \<and> \<not> is_subscribe ping_frame \<and>
   on_message known_devices 7 (Some ping_frame) watched = watched \<and>
   on_message known_devices 7 None watched = send 7 (ErrorFrame ''Invalid message format'') watched"
proof -
  have h1: "ping_frame \<noteq> JNull" by (simp add: ping_frame_def)
  have h2: "\<not> is_subscribe ping_frame" by (simp add: ping_frame_def is_subscribe_def)
  show ?thesis
    using non_subscribe_frame_handling [OF h1 h2, of known_devices 7 watched] h1 h2
    by simp
qed


section \<open>The registry\<close>

lemma on_message_subscribe:
  assumes "d \<noteq> []" and "findOne (JStr d) = Resolves (Some dev)"
  shows "on_message findOne ws (Some (subscribe_frame d)) s =
           send ws (Subscribed (JStr d)) (s\<lparr>connections := map_set (KStr d) ws (connections s)\<rparr>)"
  using assms
  by (simp add: on_message_def store_connection_def subscribe_frame_def is_subscribe_def)

text \<open>
  C6. When a connection \<open>c1\<close> and then a connection \<open>c2\<close> subscribe to the same existing
  device, both are answered with a \<^verbatim>\<open>subscribed\<close> frame and no error, the registry maps
  the device to \<open>c2\<close>, and a following location update or geofence event for the device is
  sent to \<open>c2\<close> alone (when \<open>c2\<close> is open; to nobody otherwise).
\<close>

theorem second_subscribe_replaces_first:
  assumes "d \<noteq> []" and "findOne (JStr d) = Resolves (Some dev)"
    and "s2 = on_message findOne c2 (Some (subscribe_frame d))
                (on_message findOne c1 (Some (subscribe_frame d)) s)"
  shows "map_get (KStr d) (connections s2) = Some c2 \<and>
         sent s2 = sent s @ [(c1, Subscribed (JStr d)), (c2, Subscribed (JStr d))] \<and>
         sent (broadcastLocation d locationData s2) =
           sent s2 @ (if readyState s c2 = 1 then [(c2, LocationUpdate d locationData)] else []) \<and>
         sent (broadcastGeofenceEvent d eventType g s2) =
           sent s2 @ (if readyState s c2 = 1 then [(c2, GeofenceEvent d eventType g)] else [])"
proof -
  have s2: "s2 = send c2 (Subscribed (JStr d))
                   ((send c1 (Subscribed (JStr d))
                      (s\<lparr>connections := map_set (KStr d) c1 (connections s)\<rparr>))
                    \<lparr>connections := map_set (KStr d) c2 (map_set (KStr d) c1 (connections s))\<rparr>)"
    using assms by (simp add: on_message_subscribe send_fields)
  have get: "map_get (KStr d) (connections s2) = Some c2"
    by (simp add: s2 send_fields map_get_def map_set_def)
  have rs: "readyState s2 = readyState s"
    by (simp add: s2 send_fields)
  have snt: "sent s2 = sent s @ [(c1, Subscribed (JStr d)), (c2, Subscribed (JStr d))]"
    by (simp add: s2 send_fields)
  show ?thesis
    using get snt by (simp add: broadcastLocation_def broadcastGeofenceEvent_def rs send_fields)
qed

theorem second_subscribe_replaces_first_witness:
  "''tracker-1'' \<noteq> [] \<and> known_devices (JStr ''tracker-1'') = Resolves (Some tracker) \<and>
   map_get (KStr ''tracker-1'')
     (connections (on_message known_devices 2 (Some (subscribe_frame ''tracker-1''))
                     (on_message known_devices 1 (Some (subscribe_frame ''tracker-1'')) idle))) = Some 2 \<and>
   sent (broadcastGeofenceEvent ''tracker-1'' ''enter'' home
           (on_message known_devices 2 (Some (subscribe_frame ''tracker-1''))
              (on_message known_devices 1 (Some (subscribe_frame ''tracker-1'')) idle))) =
     [(1, Subscribed (JStr ''tracker-1'')), (2, Subscribed (JStr ''tracker-1'')),
      (2, GeofenceEvent ''tracker-1'' ''enter'' home)]"
proof -
  have h1: "''tracker-1'' \<noteq> []" by simp
  have h2: "known_devices (JStr ''tracker-1'') = Resolves (Some tracker)"
    by (simp add: known_devices_def)
  show ?thesis
    using second_subscribe_replaces_first
      [where d = "''tracker-1''" and findOne = known_devices and dev = tracker and ?c1.0 = 1
         and ?c2.0 = 2 and s = idle and eventType = "''enter''" and g = home, OF h1 h2 refl]
    by (simp add: h2 idle_def all_open_def)
qed

text \<open>
  C7. After the \<^verbatim>\<open>close\<close> handler of a connection has run, no key of the registry maps to
  that connection, however many it had; a location update or geofence event for a device it
  was subscribed to changes nothing, and a fix of such a device is answered as it would be
  with the subscriber present, with no frame sent; running the handler a second time changes
  nothing.
\<close>

theorem close_removes_every_subscription:
  "(\<forall>k. map_get k (connections (on_close ws s)) \<noteq> Some ws) \<and>
   (map_get (KStr d) (connections s) = Some ws \<longrightarrow>
      broadcastLocation d locationData (on_close ws s) = on_close ws s \<and>
      broadcastGeofenceEvent d eventType g (on_close ws s) = on_close ws s) \<and>
   (map_get (KStr (deviceId dev)) (connections s) = Some ws \<longrightarrow>
      fst (post_location ar e dev b (on_close ws s)) = fst (post_location ar e dev b s) \<and>
      sent (snd (post_location ar e dev b (on_close ws s))) = sent s) \<and>
   on_close ws (on_close ws s) = on_close ws s"
proof -
  have 1: "\<forall>k. map_get k (connections (on_close ws s)) \<noteq> Some ws"
    by (simp add: map_get_on_close)
  have 2: "map_get (KStr d) (connections s) = Some ws \<longrightarrow>
      broadcastLocation d locationData (on_close ws s) = on_close ws s \<and>
      broadcastGeofenceEvent d eventType g (on_close ws s) = on_close ws s"
    by (simp add: map_get_on_close broadcastLocation_def broadcastGeofenceEvent_def)
  have 3: "map_get (KStr (deviceId dev)) (connections s) = Some ws \<longrightarrow>
      fst (post_location ar e dev b (on_close ws s)) = fst (post_location ar e dev b s) \<and>
      sent (snd (post_location ar e dev b (on_close ws s))) = sent s"
  proof
    assume "map_get (KStr (deviceId dev)) (connections s) = Some ws"
    then have "map_get (KStr (deviceId dev)) (connections (on_close ws s)) = None"
      by (simp add: map_get_on_close)
    then have "sent (snd (post_location ar e dev b (on_close ws s))) = sent (on_close ws s)"
      by (rule post_location_no_subscriber)
    then show "fst (post_location ar e dev b (on_close ws s)) = fst (post_location ar e dev b s) \<and>
      sent (snd (post_location ar e dev b (on_close ws s))) = sent s"
      using post_location_result_any_state [of ar e dev b "on_close ws s" s]
      by (simp add: on_close_sent)
  qed
  from 1 2 3 on_close_idem [of ws s] show ?thesis by blast
qed

theorem close_removes_every_subscription_witness:
  "map_get (KStr ''tracker-1'') (connections watched) = Some 7 \<and>
   map_get (KStr (deviceId tracker)) (connections watched) = Some 7 \<and>
   broadcastLocation ''tracker-1''
     (update_data (fix_at (Num 1) (Num 2)) [Num 1, Num 2]
        (new_Location reliable tracker (fix_at (Num 1) (Num 2)) [Num 1, Num 2]))
     (on_close 7 watched) = on_close 7 watched \<and>
   broadcastGeofenceEvent ''tracker-1'' ''exit'' home (on_close 7 watched) = on_close 7 watched \<and>
   fst (post_location unrounded reliable tracker (fix_at (Num 1) (Num 2)) (on_close 7 watched)) =
     fst (post_location unrounded reliable tracker (fix_at (Num 1) (Num 2)) watched) \<and>
   sent (snd (post_location unrounded reliable tracker (fix_at (Num 1) (Num 2)) (on_close 7 watched))) = sent watched"
proof -
  have h: "map_get (KStr (deviceId tracker)) (connections watched) = Some 7"
    using watched_tracker by (simp add: tracker_def)
  show ?thesis
    using close_removes_every_subscription
      [where ws = 7 and s = watched and d = "''tracker-1''" and dev = tracker
         and ar = unrounded]
      watched_tracker h
    by simp
qed

text \<open>
  C10. The \<^verbatim>\<open>close\<close> handler of one connection leaves every mapping to another connection
  as it was: a key maps to a connection other than the closing one afterwards exactly when it
  did before.
\<close>

theorem close_keeps_other_connections:
  "c \<noteq> ws \<Longrightarrow>
   (map_get k (connections (on_close ws s)) = Some c) = (map_get k (connections s) = Some c)"
  by (simp add: map_get_on_close)

theorem close_keeps_other_connections_witness:
  "(8::nat) \<noteq> 7 \<and> map_get (KStr ''other'') (connections (on_close 7 watched)) = Some 8"
  using close_keeps_other_connections [of 8 7 "KStr ''other''" watched] watched_other
  by simp


section \<open>Failure of the device write\<close>

text \<open>
  C8. For every fix that passes the route's check, when the write of the device's last
  position fails, the route ends with the error for its caller, and no frame is sent: neither
  a location update nor a geofence event.
\<close>

theorem device_write_failure_aborts:
  assumes "coordinates b = Coordinates [x, y]"
    and "device_save e (dev\<lparr>lastLocation :=
            Some \<lparr>ll_coordinates = [x, y], ll_timestamp = new_date e\<rparr>\<rparr>) = Rejects"
  shows "fst (post_location ar e dev b s) = Inl SaveRejected \<and>
         sent (snd (post_location ar e dev b s)) = sent s \<and>
         saved_devices (snd (post_location ar e dev b s)) = saved_devices s"
  using assms by (simp add: post_location_def Let_def split: awaited.splits)

theorem device_write_failure_aborts_witness:
  "coordinates (fix_at (Num 1) (Num 2)) = Coordinates [Num 1, Num 2] \<and>
   device_save device_write_fails
     (tracker\<lparr>lastLocation := Some \<lparr>ll_coordinates = [Num 1, Num 2],
                                     ll_timestamp = new_date device_write_fails\<rparr>\<rparr>) = Rejects \<and>
   fst (post_location unrounded device_write_fails tracker (fix_at (Num 1) (Num 2)) watched) = Inl SaveRejected \<and>
   sent (snd (post_location unrounded device_write_fails tracker (fix_at (Num 1) (Num 2)) watched)) = sent watched"
proof -
  have h1: "coordinates (fix_at (Num 1) (Num 2)) = Coordinates [Num 1, Num 2]" by (simp add: fix_at_def)
  have h2: "device_save device_write_fails
     (tracker\<lparr>lastLocation := Some \<lparr>ll_coordinates = [Num 1, Num 2],
                                     ll_timestamp = new_date device_write_fails\<rparr>\<rparr>) = Rejects"
    by (simp add: device_write_fails_def reject_def)
  show ?thesis
    using device_write_failure_aborts [OF h1 h2, of unrounded watched] h1 h2 by simp
qed

end
